theory Spec2Isabelle
  imports Complex_Main
begin

section \<open>Posture classifier: geometry and decision rule\<close>

text \<open>
  A shallow embedding of \<^verbatim>\<open>PoseLandmarker/posture_classifier.py\<close>.
  Python floats are modelled as the real numbers: rounding, infinities, NaN and signed
  zeros are outside the model. A numpy point is a pair of reals.
\<close>

type_synonym point = "real \<times> real"
type_synonym color = "nat \<times> nat \<times> nat"

subsection \<open>Thresholds\<close>

definition TH1 :: real where "TH1 = 105.0"
definition TH2 :: real where "TH2 = 110.0"
definition TH3 :: real where "TH3 = 70.0"
definition TH4 :: real where "TH4 = 80.0"

subsection \<open>The functions of the math module that the source calls\<close>

text \<open>
  \<^verbatim>\<open>math.atan2(y, x)\<close> is the angle of the vector \<open>(x, y)\<close> in \<open>(-pi, pi]\<close>,
  with \<open>atan2(0, 0) = 0\<close>; \<^verbatim>\<open>math.degrees\<close> converts radians to degrees.
\<close>

definition atan2 :: "real \<Rightarrow> real \<Rightarrow> real" where
  "atan2 y x =
     (if 0 < x then arctan (y / x)
      else if x < 0 then (if 0 \<le> y then arctan (y / x) + pi else arctan (y / x) - pi)
      else if 0 < y then pi / 2
      else if y < 0 then - (pi / 2)
      else 0)"

definition degrees :: "real \<Rightarrow> real" where
  "degrees r = r * 180 / pi"

subsection \<open>Geometry utilities\<close>

definition midpoint :: "point \<Rightarrow> point \<Rightarrow> point" where
  "midpoint a b = ((fst a + fst b) / 2.0, (snd a + snd b) / 2.0)"

definition angle_between :: "point \<Rightarrow> point \<Rightarrow> real" where
  "angle_between p1 p2 =
     (let dx = fst p1 - fst p2;
          dy = snd p1 - snd p2;
          ang = degrees (atan2 dy dx);
          ang = \<bar>ang\<bar>
      in if ang > 180 then 360 - ang else ang)"

text \<open>
  The value that reaches the test \<^verbatim>\<open>if ang > 180\<close>, and the function with that
  statement removed (the variant the specification says an implementer may assign).
\<close>

definition angle_before_wrap :: "point \<Rightarrow> point \<Rightarrow> real" where
  "angle_before_wrap p1 p2 = \<bar>degrees (atan2 (snd p1 - snd p2) (fst p1 - fst p2))\<bar>"

definition angle_between_without_wrap :: "point \<Rightarrow> point \<Rightarrow> real" where
  "angle_between_without_wrap p1 p2 =
     (let dx = fst p1 - fst p2;
          dy = snd p1 - snd p2;
          ang = degrees (atan2 dy dx);
          ang = \<bar>ang\<bar>
      in ang)"

subsection \<open>Classifier\<close>

definition classify_posture :: "real \<Rightarrow> real \<Rightarrow> real \<Rightarrow> real \<Rightarrow> string \<times> color" where
  "classify_posture theta1 theta2 theta3 theta4 =
     (if theta2 > TH1 \<and> theta3 > TH2 then (''L-Posture'', (0, 165, 255))
      else if theta1 \<le> TH3 \<and> theta4 \<le> TH4 then (''T-Posture'', (0, 0, 255))
      else (''Good Posture'', (0, 255, 0)))"

section \<open>The per-frame pipeline\<close>

subsection \<open>Python values and errors\<close>

text \<open>
  An index beyond the end of a list or array raises \<^verbatim>\<open>IndexError\<close>. The source
  indexes with the non-negative literals 0, 11, 12, 23 and 24 only. \<open>InvalidFrame\<close>
  stands for a frame reference that is not an image.
\<close>

datatype error = IndexError | InvalidFrame

definition item :: "'a list \<Rightarrow> nat \<Rightarrow> error + 'a" where
  "item xs i = (if i < length xs then Inr (xs ! i) else Inl IndexError)"

definition and_then :: "error + 'a \<Rightarrow> ('a \<Rightarrow> error + 'b) \<Rightarrow> error + 'b" where
  "and_then m f = (case m of Inl e \<Rightarrow> Inl e | Inr v \<Rightarrow> f v)"

text \<open>\<^verbatim>\<open>int(x)\<close> on a float truncates towards zero.\<close>

definition py_int :: "real \<Rightarrow> int" where
  "py_int r = (if 0 \<le> r then \<lfloor>r\<rfloor> else \<lceil>r\<rceil>)"

text \<open>The decimal text of an integer, as an f-string prints it.\<close>

fun str_nat :: "nat \<Rightarrow> string" where
  "str_nat n =
     (if n < 10 then [char_of (48 + n)]
      else str_nat (n div 10) @ [char_of (48 + n mod 10)])"

definition str_int :: "int \<Rightarrow> string" where
  "str_int i = (if i < 0 then CHR ''-'' # str_nat (nat (- i)) else str_nat (nat i))"

subsection \<open>Orientation (lines 70 to 83)\<close>

definition facing_left :: "point list \<Rightarrow> error + bool" where
  "facing_left lms_px =
     and_then (item lms_px 0) (\<lambda>p0.
     and_then (item lms_px 11) (\<lambda>p11.
     and_then (item lms_px 12) (\<lambda>p12.
       let nose_x = fst p0;
           l_sh_x = fst p11;
           r_sh_x = fst p12;
           avg_sh_x = (l_sh_x + r_sh_x) / 2.0
       in Inr (nose_x < avg_sh_x))))"

text \<open>The loop \<^verbatim>\<open>for i in range(len(math_lms)): math_lms[i][0] = w - math_lms[i][0]\<close>.\<close>

definition mirror_x :: "real \<Rightarrow> point list \<Rightarrow> point list" where
  "mirror_x w math_lms =
     fold (\<lambda>i ms. ms[i := (w - fst (ms ! i), snd (ms ! i))]) [0..<length math_lms] math_lms"

subsection \<open>Anchor points and angles (lines 85 to 98)\<close>

record features =
  head :: point
  neck :: point
  hip :: point
  chest :: point
  theta1 :: real
  theta2 :: real
  theta3 :: real
  theta4 :: real

definition extract_features :: "point list \<Rightarrow> error + features" where
  "extract_features math_lms =
     and_then (item math_lms 0) (\<lambda>m0.
     and_then (item math_lms 11) (\<lambda>m11.
     and_then (item math_lms 12) (\<lambda>m12.
     and_then (item math_lms 23) (\<lambda>m23.
     and_then (item math_lms 24) (\<lambda>m24.
       let hd_pt = m0;
           nk = midpoint m11 m12;
           hp = midpoint m23 m24;
           ch = ((fst m11 + fst m12 + fst m23 + fst m24) / 4.0,
                 (snd m11 + snd m12 + snd m23 + snd m24) / 4.0);
           t1 = angle_between hd_pt nk;
           t2 = angle_between nk ch;
           t3 = angle_between ch hp;
           t4 = (0.6 * t1) + (0.2 * t2) + (0.2 * t3)
       in Inr \<lparr>head = hd_pt, neck = nk, hip = hp, chest = ch,
                theta1 = t1, theta2 = t2, theta3 = t3, theta4 = t4\<rparr>)))))"

subsection \<open>Orientation, features and classification together (lines 70 to 100)\<close>

record analysis =
  is_facing_left :: bool
  canonical :: "point list"
  feats :: features
  posture :: "string \<times> color"

definition frame_pipeline :: "real \<Rightarrow> point list \<Rightarrow> error + analysis" where
  "frame_pipeline w lms_px =
     and_then (facing_left lms_px) (\<lambda>fl.
       let ms = (if fl then mirror_x w lms_px else lms_px)
       in and_then (extract_features ms) (\<lambda>f.
            Inr \<lparr>is_facing_left = fl, canonical = ms, feats = f,
                 posture = classify_posture (theta1 f) (theta2 f) (theta3 f) (theta4 f)\<rparr>))"

text \<open>The full horizontal mirror of a landmark set: every x replaced by \<open>w - x\<close>.\<close>

definition mirrored :: "real \<Rightarrow> point list \<Rightarrow> point list" where
  "mirrored w lms = map (\<lambda>p. (w - fst p, snd p)) lms"

subsection \<open>Overlay (lines 102 to 125)\<close>

type_synonym pixel = "int \<times> int"

datatype font = FONT_HERSHEY_SIMPLEX

text \<open>
  The calls into the drawing library, with their arguments in the library's order:
  \<^verbatim>\<open>line(img, pt1, pt2, color, thickness)\<close>,
  \<^verbatim>\<open>circle(img, center, radius, color, thickness)\<close>,
  \<^verbatim>\<open>putText(img, text, org, fontFace, fontScale, color, thickness)\<close>.
\<close>

datatype draw_cmd =
    Line pixel pixel color int
  | Circle pixel int color int
  | PutText string pixel font real color int

definition draw_pt :: "nat \<Rightarrow> bool \<Rightarrow> point \<Rightarrow> pixel" where
  "draw_pt w fl pt_arr =
     (let x = py_int (fst pt_arr);
          y = py_int (snd pt_arr);
          x = (if fl then py_int (real w - fst pt_arr) else x)
      in (x, y))"

definition overlay :: "nat \<Rightarrow> bool \<Rightarrow> features \<Rightarrow> string \<Rightarrow> color \<Rightarrow> draw_cmd list" where
  "overlay w fl f label color =
     [Line (draw_pt w fl (head f)) (draw_pt w fl (neck f)) (255, 255, 0) 2,
      Line (draw_pt w fl (neck f)) (draw_pt w fl (chest f)) (255, 255, 0) 2,
      Line (draw_pt w fl (chest f)) (draw_pt w fl (hip f)) (255, 255, 0) 2]
     @ map (\<lambda>pt. Circle (draw_pt w fl pt) 6 (0, 255, 255) (- 1)) [head f, neck f, chest f, hip f]
     @ [PutText (''Posture: '' @ label) (30, 50) FONT_HERSHEY_SIMPLEX 1 color 2,
        PutText (''T1:'' @ str_int (py_int (theta1 f)) @ '' T2:'' @ str_int (py_int (theta2 f))
                 @ '' T3:'' @ str_int (py_int (theta3 f)) @ '' T4:'' @ str_int (py_int (theta4 f)))
                (30, 90) FONT_HERSHEY_SIMPLEX 0.6 (200, 200, 200) 1,
        PutText (''Facing: '' @ (if fl then ''LEFT'' else ''RIGHT'')) (30, 120)
                FONT_HERSHEY_SIMPLEX 0.6 (0, 255, 255) 1]"

subsection \<open>Arrays in memory\<close>

text \<open>
  The frame and the landmark arrays are numpy arrays, which the callee could change in
  place. The store holds every array; an address is an index into it, \<^verbatim>\<open>copy()\<close>
  and every array-building expression allocate at the end, and a write in place replaces
  the array at its address. The image type \<open>'f\<close> and the image library (the shape of an
  image, colour conversion, and what one drawing call does to an image) are parameters.
\<close>

datatype 'f ndarray = Image 'f | Points "point list"

type_synonym 'f store = "'f ndarray list"

record 'f image_lib =
  shape :: "'f \<Rightarrow> nat \<times> nat"
  cvtColor :: "'f \<Rightarrow> 'f"
  render :: "draw_cmd \<Rightarrow> 'f \<Rightarrow> 'f"

definition alloc :: "'f ndarray \<Rightarrow> 'f store \<Rightarrow> nat \<times> 'f store" where
  "alloc v s = (length s, s @ [v])"

definition assign :: "nat \<Rightarrow> 'f ndarray \<Rightarrow> 'f store \<Rightarrow> 'f store" where
  "assign a v s = s[a := v]"

definition draw :: "'f image_lib \<Rightarrow> nat \<Rightarrow> draw_cmd \<Rightarrow> 'f store \<Rightarrow> 'f store" where
  "draw cv a c s =
     (case item s a of
        Inr (Image img) \<Rightarrow> assign a (Image (render cv c img)) s
      | _ \<Rightarrow> s)"

subsection \<open>process_frame\<close>

text \<open>
  The detector is the external pose model: from the converted image and the timestamp it
  gives the list of detected poses, each a list of normalised landmarks \<open>(x, y)\<close>.
  The result is the returned array's address or the raised error, with the store as the
  call leaves it.
\<close>

definition process_frame ::
  "'f image_lib \<Rightarrow> ('f \<Rightarrow> int \<Rightarrow> point list list) \<Rightarrow> nat \<Rightarrow> real \<Rightarrow> 'f store
     \<Rightarrow> (error + nat) \<times> 'f store" where
  "process_frame cv detector frame_bgr timestamp_ms s0 =
     (case item s0 frame_bgr of
        Inr (Image img) \<Rightarrow>
          let (h, w) = shape cv img;
              (rgb, s1) = alloc (Image (cvtColor cv img)) s0;
              det = detector (cvtColor cv img) (py_int timestamp_ms);
              (out_frame, s2) = alloc (Image img) s1
          in if det = [] then (Inr out_frame, s2)
             else
               let lm = hd det;
                   px = map (\<lambda>p. (fst p * real w, snd p * real h)) lm;
                   (lms_px, s3) = alloc (Points px) s2
               in case facing_left px of
                    Inl e \<Rightarrow> (Inl e, s3)
                  | Inr fl \<Rightarrow>
                      let (math_lms, s4) = alloc (Points px) s3;
                          ms = (if fl then mirror_x (real w) px else px);
                          s5 = (if fl then assign math_lms (Points ms) s4 else s4)
                      in case extract_features ms of
                           Inl e \<Rightarrow> (Inl e, s5)
                         | Inr f \<Rightarrow>
                             let (label, color) =
                                   classify_posture (theta1 f) (theta2 f) (theta3 f) (theta4 f);
                                 s6 = fold (draw cv out_frame) (overlay w fl f label color) s5
                             in (Inr out_frame, s6)
      | _ \<Rightarrow> (Inl InvalidFrame, s0))"

section \<open>Example inputs\<close>

text \<open>
  A pose of 33 landmarks with the five landmarks the pipeline reads given and every other
  landmark at the origin; three pixel-space landmark sets (nose over the shoulder centre
  with the hips to one side, nose left of the shoulders, and an upright body); a pose in
  normalised coordinates; an image library whose images only count the drawing calls
  applied to them; and two detectors.
\<close>

definition pose_with :: "point \<Rightarrow> point \<Rightarrow> point \<Rightarrow> point \<Rightarrow> point \<Rightarrow> point list" where
  "pose_with p0 p11 p12 p23 p24 =
     p0 # replicate 10 (0, 0) @ [p11, p12] @ replicate 10 (0, 0) @ [p23, p24]
       @ replicate 8 (0, 0)"

definition tie_landmarks :: "point list" where
  "tie_landmarks = pose_with (5, 0) (5, 2) (5, 2) (9, 6) (9, 6)"

definition leaning_landmarks :: "point list" where
  "leaning_landmarks = pose_with (3, 0) (5, 2) (5, 2) (9, 6) (9, 6)"

definition upright_landmarks :: "point list" where
  "upright_landmarks = pose_with (5, 0) (4, 2) (6, 2) (4, 6) (6, 6)"

definition upright_pose :: "point list" where
  "upright_pose = pose_with (0.5, 0) (0.4, 0.2) (0.6, 0.2) (0.4, 0.6) (0.6, 0.6)"

definition counting_lib :: "nat image_lib" where
  "counting_lib =
     \<lparr>shape = (\<lambda>img. (10, 10)), cvtColor = (\<lambda>img. img), render = (\<lambda>c img. Suc img)\<rparr>"


definition upright_detector :: "nat \<Rightarrow> int \<Rightarrow> point list list" where
  "upright_detector img ts = [upright_pose]"

section \<open>Properties of the geometry utilities\<close>

lemma atan2_right: "0 < x \<Longrightarrow> atan2 y x = arctan (y / x)"
  by (simp add: atan2_def)

lemma atan2_upper_left: "x < 0 \<Longrightarrow> 0 \<le> y \<Longrightarrow> atan2 y x = arctan (y / x) + pi"
  by (simp add: atan2_def)

lemma atan2_lower_left: "x < 0 \<Longrightarrow> y < 0 \<Longrightarrow> atan2 y x = arctan (y / x) - pi"
  by (simp add: atan2_def)

lemma atan2_up: "0 < y \<Longrightarrow> atan2 y 0 = pi / 2"
  by (simp add: atan2_def)

lemma atan2_down: "y < 0 \<Longrightarrow> atan2 y 0 = - (pi / 2)"
  by (simp add: atan2_def)

lemma atan2_origin: "atan2 0 0 = 0"
  by (simp add: atan2_def)

lemma arctan_quotient_sign:
  "(0 < x \<and> y \<le> 0 \<or> x < 0 \<and> 0 \<le> y) \<Longrightarrow> arctan (y / x) \<le> 0"
  "(0 < x \<and> 0 < y \<or> x < 0 \<and> y < 0) \<Longrightarrow> 0 < arctan (y / x)"
  by (auto simp: divide_le_0_iff zero_less_divide_iff)

lemma atan2_bounds: "- pi < atan2 y x \<and> atan2 y x \<le> pi"
proof -
  have lo: "- (pi / 2) < arctan (y / x)" by (rule arctan_lbound)
  have hi: "arctan (y / x) < pi / 2" by (rule arctan_ubound)
  have p: "0 < pi" by (rule pi_gt_zero)
  consider (pos) "0 < x" | (neg_up) "x < 0" "0 \<le> y" | (neg_down) "x < 0" "y < 0"
    | (up) "x = 0" "0 < y" | (down) "x = 0" "y < 0" | (origin) "x = 0" "y = 0"
    by linarith
  then show ?thesis
  proof cases
    case pos
    from lo hi p show ?thesis unfolding atan2_right [OF pos] by linarith
  next
    case neg_up
    from arctan_quotient_sign(1) [of x y] neg_up have "arctan (y / x) \<le> 0" by simp
    with lo p show ?thesis unfolding atan2_upper_left [OF neg_up] by linarith
  next
    case neg_down
    from arctan_quotient_sign(2) [of x y] neg_down have "0 < arctan (y / x)" by simp
    with hi p show ?thesis unfolding atan2_lower_left [OF neg_down] by linarith
  next
    case up
    from p show ?thesis unfolding up(1) atan2_up [OF up(2)] by linarith
  next
    case down
    from p show ?thesis unfolding down(1) atan2_down [OF down(2)] by linarith
  next
    case origin
    from p show ?thesis unfolding origin atan2_origin by linarith
  qed
qed

lemma abs_degrees_le: "\<bar>degrees (atan2 y x)\<bar> \<le> 180"
proof -
  from atan2_bounds [of y x] have "\<bar>atan2 y x\<bar> \<le> pi" by linarith
  then have "\<bar>atan2 y x\<bar> * 180 / pi \<le> pi * 180 / pi"
    by (intro divide_right_mono mult_right_mono) simp_all
  then show ?thesis by (simp add: degrees_def abs_mult)
qed

lemma degrees_pi [simp]: "degrees pi = 180"
  by (simp add: degrees_def)

lemma degrees_half_pi [simp]: "degrees (pi / 2) = 90"
  by (simp add: degrees_def)

lemma angle_between_eq: "angle_between p1 p2 = angle_before_wrap p1 p2"
  using abs_degrees_le [of "snd p1 - snd p2" "fst p1 - fst p2"]
  by (simp add: angle_between_def angle_before_wrap_def Let_def)

section \<open>Claims about the geometry utilities\<close>

text \<open>
  Claim C8: \<open>midpoint\<close> is commutative, and each component of the result is the
  arithmetic mean of the corresponding components of the two points. The function has no
  failing branch.
\<close>

theorem midpoint_commutes:
  "midpoint a b = midpoint b a \<and>
   midpoint a b = ((fst a + fst b) / 2, (snd a + snd b) / 2)"
  by (simp add: midpoint_def add.commute)

text \<open>
  Claim C3: for every pair of points \<open>angle_between\<close> returns a value in the closed
  interval from 0 to 180; the value tested by \<^verbatim>\<open>if ang > 180\<close> never exceeds 180,
  so that branch is never taken, and the function without it returns the same result on
  every input.
\<close>

theorem angle_between_range:
  "0 \<le> angle_between p1 p2 \<and> angle_between p1 p2 \<le> 180 \<and>
   \<not> angle_before_wrap p1 p2 > 180 \<and>
   angle_between_without_wrap p1 p2 = angle_between p1 p2"
proof -
  have "angle_before_wrap p1 p2 \<le> 180"
    unfolding angle_before_wrap_def by (rule abs_degrees_le)
  moreover have "0 \<le> angle_before_wrap p1 p2"
    unfolding angle_before_wrap_def by (rule abs_ge_zero)
  moreover have "angle_between_without_wrap p1 p2 = angle_before_wrap p1 p2"
    by (simp add: angle_between_without_wrap_def angle_before_wrap_def Let_def)
  ultimately show ?thesis
    by (simp add: angle_between_eq)
qed

text \<open>
  Claim C4 says that \<open>angle_between\<close> is symmetric in its arguments. It is not:
  the vector from the origin to \<open>(1, 0)\<close> has angle 0, the opposite vector has
  angle 180.
\<close>

theorem angle_between_symmetry_counterexample:
  "angle_between (1, 0) (0, 0) = 0 \<and> angle_between (0, 0) (1, 0) = 180 \<and>
   angle_between (1, 0) (0, 0) \<noteq> angle_between (0, 0) (1, 0)"
  by (simp add: angle_between_def atan2_def degrees_def)

text \<open>
  Claim C4 as amended: for every pair of points with the same x-coordinate,
  \<open>angle_between p1 p2\<close> equals \<open>angle_between p2 p1\<close>. The difference vector is
  then vertical or zero in both orders, so both calls return 90, or both return 0 when the
  points coincide.
\<close>

theorem angle_between_symmetric_same_x:
  assumes "fst p1 = fst p2"
  shows "angle_between p1 p2 = angle_between p2 p1"
proof -
  consider (above) "snd p1 < snd p2" | (below) "snd p2 < snd p1" | (level) "snd p1 = snd p2"
    by linarith
  then show ?thesis
  proof cases
    case above
    with assms show ?thesis by (simp add: angle_between_def atan2_def degrees_def)
  next
    case below
    with assms show ?thesis by (simp add: angle_between_def atan2_def degrees_def)
  next
    case level
    with assms show ?thesis by (simp add: angle_between_def atan2_def degrees_def)
  qed
qed

theorem angle_between_symmetric_same_x_witness:
  "fst ((5, 0) :: point) = fst ((5, 2) :: point) \<and>
   angle_between (5, 0) (5, 2) = angle_between (5, 2) (5, 0) \<and>
   angle_between (5, 0) (5, 2) = 90"
  using angle_between_symmetric_same_x [of "(5, 0)" "(5, 2)"]
  by (simp add: angle_between_def atan2_def degrees_def)

section \<open>Claims about the classifier\<close>

text \<open>
  Claim C1: \<open>classify_posture\<close> is the ordered decision rule. The result is L-Posture
  with colour (0, 165, 255) exactly when \<open>theta2 > 105\<close> and \<open>theta3 > 110\<close>;
  it is T-Posture with colour (0, 0, 255) exactly when that test fails and
  \<open>theta1 \<le> 70\<close> and \<open>theta4 \<le> 80\<close>; it is Good Posture with colour (0, 255, 0)
  exactly when both tests fail. At \<open>theta2 = 105\<close>, \<open>theta3 = 110\<close> the first test
  fails, and at \<open>theta1 = 70\<close>, \<open>theta4 = 80\<close> the second succeeds.
\<close>

theorem classify_posture_rule:
  "(classify_posture t1 t2 t3 t4 = (''L-Posture'', (0, 165, 255)) \<longleftrightarrow> t2 > 105.0 \<and> t3 > 110.0) \<and>
   (classify_posture t1 t2 t3 t4 = (''T-Posture'', (0, 0, 255)) \<longleftrightarrow>
      \<not> (t2 > 105.0 \<and> t3 > 110.0) \<and> t1 \<le> 70.0 \<and> t4 \<le> 80.0) \<and>
   (classify_posture t1 t2 t3 t4 = (''Good Posture'', (0, 255, 0)) \<longleftrightarrow>
      \<not> (t2 > 105.0 \<and> t3 > 110.0) \<and> \<not> (t1 \<le> 70.0 \<and> t4 \<le> 80.0)) \<and>
   classify_posture 70.0 105.0 110.0 80.0 = (''T-Posture'', (0, 0, 255)) \<and>
   classify_posture 70.0 105.01 110.01 80.0 = (''L-Posture'', (0, 165, 255)) \<and>
   classify_posture 70.01 105.0 110.0 80.0 = (''Good Posture'', (0, 255, 0))"
  by (simp add: classify_posture_def TH1_def TH2_def TH3_def TH4_def)

text \<open>
  Claim C9: \<open>classify_posture\<close> is total and deterministic. It has no failing branch:
  on every four reals it returns one of the three label and colour pairs, and equal
  inputs give equal results.
\<close>

theorem classify_posture_total:
  "classify_posture t1 t2 t3 t4 \<in>
     {(''L-Posture'', (0, 165, 255)), (''T-Posture'', (0, 0, 255)), (''Good Posture'', (0, 255, 0))} \<and>
   ((t1, t2, t3, t4) = (u1, u2, u3, u4) \<longrightarrow>
      classify_posture t1 t2 t3 t4 = classify_posture u1 u2 u3 u4)"
  by (simp add: classify_posture_def)

theorem classify_posture_total_witness:
  "classify_posture 90 90 90 90 \<in>
     {(''L-Posture'', (0, 165, 255)), (''T-Posture'', (0, 0, 255)), (''Good Posture'', (0, 255, 0))} \<and>
   ((90 :: real, 90 :: real, 90 :: real, 90 :: real) = (90, 90, 90, 90)) \<and>
    classify_posture 90 90 90 90 = classify_posture 90 90 90 90"
  using classify_posture_total [of 90 90 90 90 90 90 90 90] by simp

section \<open>Properties of the pipeline\<close>

lemma mirror_fold_length:
  "length (fold (\<lambda>i ms. ms[i := (w - fst (ms ! i), snd (ms ! i))]) [0..<n] xs) = length xs"
  by (induction n) simp_all

lemma mirror_fold_nth:
  "i < length xs \<Longrightarrow>
   fold (\<lambda>i ms. ms[i := (w - fst (ms ! i), snd (ms ! i))]) [0..<n] xs ! i =
     (if i < n then (w - fst (xs ! i), snd (xs ! i)) else xs ! i)"
proof (induction n)
  case 0
  then show ?case by simp
next
  case (Suc n)
  then show ?case
    by (auto simp: nth_list_update mirror_fold_length less_Suc_eq)
qed

lemma mirror_x_eq: "mirror_x w xs = mirrored w xs"
  by (rule nth_equalityI)
     (simp_all add: mirror_x_def mirrored_def mirror_fold_length mirror_fold_nth)

lemma mirrored_twice: "mirrored w (mirrored w xs) = xs"
  by (simp add: mirrored_def comp_def)

lemma item_in: "i < length xs \<Longrightarrow> item xs i = Inr (xs ! i)"
  by (simp add: item_def)

lemma item_below: "n < length xs \<Longrightarrow> i \<le> n \<Longrightarrow> item xs i = Inr (xs ! i)"
  by (simp add: item_def)

lemma item_out: "\<not> i < length xs \<Longrightarrow> item xs i = Inl IndexError"
  by (simp add: item_def)

lemma and_then_Inr [simp]: "and_then (Inr v) f = f v"
  by (simp add: and_then_def)

lemma and_then_Inl [simp]: "and_then (Inl e) f = Inl e"
  by (simp add: and_then_def)

lemma facing_left_value:
  assumes "12 < length xs"
  shows "facing_left xs = Inr (fst (xs ! 0) < (fst (xs ! 11) + fst (xs ! 12)) / 2)"
proof -
  show ?thesis by (simp add: facing_left_def item_below [OF assms] Let_def)
qed

lemma mirrored_nth:
  "n < length xs \<Longrightarrow> i \<le> n \<Longrightarrow> mirrored w xs ! i = (w - fst (xs ! i), snd (xs ! i))"
  by (simp add: mirrored_def)

lemma mirrored_length [simp]: "length (mirrored w xs) = length xs"
  by (simp add: mirrored_def)

lemma facing_left_mirrored:
  assumes "12 < length xs"
  shows "facing_left (mirrored w xs) = Inr ((fst (xs ! 11) + fst (xs ! 12)) / 2 < fst (xs ! 0))"
proof -
  from assms have "12 < length (mirrored w xs)" by (simp add: mirrored_def)
  then have "facing_left (mirrored w xs) =
      Inr (fst (mirrored w xs ! 0) < (fst (mirrored w xs ! 11) + fst (mirrored w xs ! 12)) / 2)"
    by (rule facing_left_value)
  also from assms have "\<dots> = Inr (w - fst (xs ! 0) < ((w - fst (xs ! 11)) + (w - fst (xs ! 12))) / 2)"
    by (simp add: mirrored_nth [OF assms])
  also have "\<dots> = Inr ((fst (xs ! 11) + fst (xs ! 12)) / 2 < fst (xs ! 0))"
    by (simp add: field_simps)
  finally show ?thesis .
qed

lemma extract_features_ok:
  assumes "24 < length m"
  shows "\<exists>f. extract_features m = Inr f"
proof -
  show ?thesis by (simp add: extract_features_def item_below [OF assms] Let_def)
qed

lemma frame_pipeline_value:
  assumes "24 < length xs"
  shows "\<exists>f. extract_features (if fst (xs ! 0) < (fst (xs ! 11) + fst (xs ! 12)) / 2 then mirrored w xs else xs) = Inr f \<and>
     frame_pipeline w xs =
       Inr \<lparr>is_facing_left = fst (xs ! 0) < (fst (xs ! 11) + fst (xs ! 12)) / 2,
            canonical = (if fst (xs ! 0) < (fst (xs ! 11) + fst (xs ! 12)) / 2 then mirrored w xs else xs),
            feats = f,
            posture = classify_posture (theta1 f) (theta2 f) (theta3 f) (theta4 f)\<rparr>"
proof -
  let ?fl = "fst (xs ! 0) < (fst (xs ! 11) + fst (xs ! 12)) / 2"
  let ?ms = "if ?fl then mirrored w xs else xs"
  from assms have "24 < length ?ms" by (simp add: mirrored_def)
  from extract_features_ok [OF this] obtain f where f: "extract_features ?ms = Inr f" ..
  from assms have "facing_left xs = Inr ?fl" by (simp add: facing_left_value)
  then have "frame_pipeline w xs =
       Inr \<lparr>is_facing_left = ?fl, canonical = ?ms, feats = f,
            posture = classify_posture (theta1 f) (theta2 f) (theta3 f) (theta4 f)\<rparr>"
    using f by (cases ?fl) (simp_all add: frame_pipeline_def mirror_x_eq Let_def)
  with f show ?thesis by blast
qed

lemma frame_pipeline_Inr:
  assumes "frame_pipeline w lms = Inr a"
  shows "facing_left lms = Inr (is_facing_left a)"
    and "canonical a = (if is_facing_left a then mirrored w lms else lms)"
    and "extract_features (canonical a) = Inr (feats a)"
    and "posture a = classify_posture (theta1 (feats a)) (theta2 (feats a))
                       (theta3 (feats a)) (theta4 (feats a))"
  using assms
  by (auto simp: frame_pipeline_def and_then_def mirror_x_eq Let_def split: sum.splits if_splits)

lemma facing_left_Inr:
  assumes "facing_left lms = Inr fl"
  shows "12 < length lms"
  using assms
  by (auto simp: facing_left_def and_then_def item_def Let_def split: sum.splits if_splits)

lemma extract_features_Inr:
  assumes "extract_features m = Inr f"
  shows "24 < length m"
  using assms
  by (auto simp: extract_features_def and_then_def item_def Let_def split: sum.splits if_splits)

lemma angle_between_vertical:
  assumes "fst p1 = fst p2" and "snd p1 < snd p2"
  shows "angle_between p1 p2 = 90"
  using assms by (simp add: angle_between_def atan2_def degrees_def)

lemma extract_features_value:
  assumes "24 < length m"
  shows "extract_features m =
     Inr \<lparr>head = m ! 0, neck = midpoint (m ! 11) (m ! 12), hip = midpoint (m ! 23) (m ! 24),
          chest = ((fst (m ! 11) + fst (m ! 12) + fst (m ! 23) + fst (m ! 24)) / 4,
                   (snd (m ! 11) + snd (m ! 12) + snd (m ! 23) + snd (m ! 24)) / 4),
          theta1 = angle_between (m ! 0) (midpoint (m ! 11) (m ! 12)),
          theta2 = angle_between (midpoint (m ! 11) (m ! 12))
                     ((fst (m ! 11) + fst (m ! 12) + fst (m ! 23) + fst (m ! 24)) / 4,
                      (snd (m ! 11) + snd (m ! 12) + snd (m ! 23) + snd (m ! 24)) / 4),
          theta3 = angle_between
                     ((fst (m ! 11) + fst (m ! 12) + fst (m ! 23) + fst (m ! 24)) / 4,
                      (snd (m ! 11) + snd (m ! 12) + snd (m ! 23) + snd (m ! 24)) / 4)
                     (midpoint (m ! 23) (m ! 24)),
          theta4 = 0.6 * angle_between (m ! 0) (midpoint (m ! 11) (m ! 12))
                 + 0.2 * angle_between (midpoint (m ! 11) (m ! 12))
                     ((fst (m ! 11) + fst (m ! 12) + fst (m ! 23) + fst (m ! 24)) / 4,
                      (snd (m ! 11) + snd (m ! 12) + snd (m ! 23) + snd (m ! 24)) / 4)
                 + 0.2 * angle_between
                     ((fst (m ! 11) + fst (m ! 12) + fst (m ! 23) + fst (m ! 24)) / 4,
                      (snd (m ! 11) + snd (m ! 12) + snd (m ! 23) + snd (m ! 24)) / 4)
                     (midpoint (m ! 23) (m ! 24))\<rparr>"
  by (simp add: extract_features_def item_below [OF assms] Let_def)

lemma extract_features_fields:
  assumes "extract_features m = Inr f"
  shows "head f = m ! 0"
    and "neck f = ((fst (m ! 11) + fst (m ! 12)) / 2, (snd (m ! 11) + snd (m ! 12)) / 2)"
    and "theta1 f = angle_between (head f) (neck f)"
    and "theta2 f = angle_between (neck f) (chest f)"
    and "theta3 f = angle_between (chest f) (hip f)"
    and "theta4 f = 0.6 * theta1 f + 0.2 * theta2 f + 0.2 * theta3 f"
  using assms
  by (auto simp: extract_features_def and_then_def item_def Let_def midpoint_def
        split: sum.splits if_splits)

subsection \<open>The example inputs evaluated\<close>

lemma pose_with_nth:
  "length (pose_with p0 p11 p12 p23 p24) = 33"
  "pose_with p0 p11 p12 p23 p24 ! 0 = p0"
  "pose_with p0 p11 p12 p23 p24 ! 11 = p11"
  "pose_with p0 p11 p12 p23 p24 ! 12 = p12"
  "pose_with p0 p11 p12 p23 p24 ! 23 = p23"
  "pose_with p0 p11 p12 p23 p24 ! 24 = p24"
  by (simp_all add: pose_with_def nth_append nth_Cons')

lemma angle_values:
  "angle_between (5, 0) (5, 2) = 90"
  "angle_between (5, 2) (7, 4) = 135"
  "angle_between (7, 4) (9, 6) = 135"
  "angle_between (5, 2) (3, 4) = 45"
  "angle_between (3, 4) (1, 6) = 45"
  by (simp_all add: angle_between_def atan2_def degrees_def arctan_one arctan_minus)

lemma tie_nth:
  "length tie_landmarks = 33"
  "tie_landmarks ! 0 = (5, 0)" "tie_landmarks ! 11 = (5, 2)" "tie_landmarks ! 12 = (5, 2)"
  "tie_landmarks ! 23 = (9, 6)" "tie_landmarks ! 24 = (9, 6)"
  by (simp_all add: tie_landmarks_def pose_with_nth)

lemma tie_features:
  "extract_features tie_landmarks =
     Inr \<lparr>head = (5, 0), neck = (5, 2), hip = (9, 6), chest = (7, 4),
          theta1 = 90, theta2 = 135, theta3 = 135, theta4 = 108\<rparr>"
proof -
  have "24 < length tie_landmarks" by (simp add: tie_nth)
  from extract_features_value [OF this] show ?thesis
    by (simp add: tie_nth midpoint_def angle_values)
qed

lemma tie_mirrored_features:
  "extract_features (mirrored 10 tie_landmarks) =
     Inr \<lparr>head = (5, 0), neck = (5, 2), hip = (1, 6), chest = (3, 4),
          theta1 = 90, theta2 = 45, theta3 = 45, theta4 = 72\<rparr>"
proof -
  have l: "24 < length tie_landmarks" by (simp add: tie_nth)
  then have "24 < length (mirrored 10 tie_landmarks)" by simp
  from extract_features_value [OF this] show ?thesis
    by (simp add: mirrored_nth [OF l] tie_nth midpoint_def angle_values)
qed

lemma leaning_nth:
  "length leaning_landmarks = 33"
  "leaning_landmarks ! 0 = (3, 0)" "leaning_landmarks ! 11 = (5, 2)" "leaning_landmarks ! 12 = (5, 2)"
  "leaning_landmarks ! 23 = (9, 6)" "leaning_landmarks ! 24 = (9, 6)"
  by (simp_all add: leaning_landmarks_def pose_with_nth)

lemma upright_nth:
  "length upright_landmarks = 33"
  "upright_landmarks ! 0 = (5, 0)" "upright_landmarks ! 11 = (4, 2)" "upright_landmarks ! 12 = (6, 2)"
  "upright_landmarks ! 23 = (4, 6)" "upright_landmarks ! 24 = (6, 6)"
  by (simp_all add: upright_landmarks_def pose_with_nth)

lemma upright_run:
  "frame_pipeline 10 upright_landmarks =
     Inr \<lparr>is_facing_left = False, canonical = upright_landmarks,
          feats = \<lparr>head = (5, 0), neck = (5, 2), hip = (5, 6), chest = (5, 4),
                   theta1 = 90, theta2 = 90, theta3 = 90, theta4 = 90\<rparr>,
          posture = (''Good Posture'', (0, 255, 0))\<rparr>"
proof -
  have l: "24 < length upright_landmarks" by (simp add: upright_nth)
  then have l': "12 < length upright_landmarks" by simp
  have a: "facing_left upright_landmarks = Inr False"
    by (simp add: facing_left_value [OF l'] upright_nth)
  have v: "angle_between (5, 0) (5, 2) = 90" "angle_between (5, 2) (5, 4) = 90"
          "angle_between (5, 4) (5, 6) = 90"
    by (simp_all add: angle_between_vertical)
  have b: "extract_features upright_landmarks =
     Inr \<lparr>head = (5, 0), neck = (5, 2), hip = (5, 6), chest = (5, 4),
          theta1 = 90, theta2 = 90, theta3 = 90, theta4 = 90\<rparr>"
    using extract_features_value [OF l] by (simp add: upright_nth midpoint_def v)
  show ?thesis
    by (simp add: frame_pipeline_def a b classify_posture_def TH1_def TH2_def TH3_def TH4_def)
qed

section \<open>Claims about the pipeline\<close>

text \<open>
  Claim C5: on a landmark array with the indices 0 to 24 the feature extractor takes the
  head from landmark 0, the neck as the componentwise mean of landmarks 11 and 12, the
  chest as the componentwise mean of landmarks 11, 12, 23 and 24, and the hip as the
  componentwise mean of landmarks 23 and 24; \<open>theta1\<close> is the angle between head and
  neck, \<open>theta2\<close> between neck and chest, \<open>theta3\<close> between chest and hip, and
  \<open>theta4 = 0.6 * theta1 + 0.2 * theta2 + 0.2 * theta3\<close>.
\<close>

theorem anchors_and_angles:
  assumes "24 < length m"
  shows "\<exists>f. extract_features m = Inr f \<and>
           head f = m ! 0 \<and>
           neck f = ((fst (m ! 11) + fst (m ! 12)) / 2, (snd (m ! 11) + snd (m ! 12)) / 2) \<and>
           chest f = ((fst (m ! 11) + fst (m ! 12) + fst (m ! 23) + fst (m ! 24)) / 4,
                      (snd (m ! 11) + snd (m ! 12) + snd (m ! 23) + snd (m ! 24)) / 4) \<and>
           hip f = ((fst (m ! 23) + fst (m ! 24)) / 2, (snd (m ! 23) + snd (m ! 24)) / 2) \<and>
           theta1 f = angle_between (head f) (neck f) \<and>
           theta2 f = angle_between (neck f) (chest f) \<and>
           theta3 f = angle_between (chest f) (hip f) \<and>
           theta4 f = 0.6 * theta1 f + 0.2 * theta2 f + 0.2 * theta3 f"
  by (simp add: extract_features_value [OF assms] midpoint_def)

theorem anchors_and_angles_witness:
  "24 < length tie_landmarks \<and>
   (\<exists>f. extract_features tie_landmarks = Inr f \<and>
        head f = tie_landmarks ! 0 \<and>
        neck f = ((fst (tie_landmarks ! 11) + fst (tie_landmarks ! 12)) / 2,
                  (snd (tie_landmarks ! 11) + snd (tie_landmarks ! 12)) / 2) \<and>
        chest f = ((fst (tie_landmarks ! 11) + fst (tie_landmarks ! 12)
                     + fst (tie_landmarks ! 23) + fst (tie_landmarks ! 24)) / 4,
                   (snd (tie_landmarks ! 11) + snd (tie_landmarks ! 12)
                     + snd (tie_landmarks ! 23) + snd (tie_landmarks ! 24)) / 4) \<and>
        hip f = ((fst (tie_landmarks ! 23) + fst (tie_landmarks ! 24)) / 2,
                 (snd (tie_landmarks ! 23) + snd (tie_landmarks ! 24)) / 2) \<and>
        theta1 f = angle_between (head f) (neck f) \<and>
        theta2 f = angle_between (neck f) (chest f) \<and>
        theta3 f = angle_between (chest f) (hip f) \<and>
        theta4 f = 0.6 * theta1 f + 0.2 * theta2 f + 0.2 * theta3 f)"
proof -
  have l: "24 < length tie_landmarks" by (simp add: tie_nth)
  from l anchors_and_angles [OF l] show ?thesis by blast
qed

text \<open>
  Claim C2 says that a landmark set and its horizontal mirror always give the same angles
  and the same label, with the orientation flag flipped. When the nose is exactly over
  the centre of the shoulders, neither the set nor its mirror counts as facing left, so
  neither is mirrored: with the hips to the right the pipeline finds angles of 135
  degrees and L-Posture, with the hips to the left angles of 45 degrees and Good Posture.
\<close>

theorem orientation_tie_counterexample:
  "frame_pipeline 10 tie_landmarks =
     Inr \<lparr>is_facing_left = False, canonical = tie_landmarks,
          feats = \<lparr>head = (5, 0), neck = (5, 2), hip = (9, 6), chest = (7, 4),
                   theta1 = 90, theta2 = 135, theta3 = 135, theta4 = 108\<rparr>,
          posture = (''L-Posture'', (0, 165, 255))\<rparr> \<and>
   frame_pipeline 10 (mirrored 10 tie_landmarks) =
     Inr \<lparr>is_facing_left = False, canonical = mirrored 10 tie_landmarks,
          feats = \<lparr>head = (5, 0), neck = (5, 2), hip = (1, 6), chest = (3, 4),
                   theta1 = 90, theta2 = 45, theta3 = 45, theta4 = 72\<rparr>,
          posture = (''Good Posture'', (0, 255, 0))\<rparr>"
proof -
  have l: "12 < length tie_landmarks" by (simp add: tie_nth)
  have a: "facing_left tie_landmarks = Inr False"
    by (simp add: facing_left_value [OF l] tie_nth)
  have b: "facing_left (mirrored 10 tie_landmarks) = Inr False"
    by (simp add: facing_left_mirrored [OF l] tie_nth)
  show ?thesis
    by (simp add: frame_pipeline_def a b tie_features tie_mirrored_features
          classify_posture_def TH1_def TH2_def TH3_def TH4_def)
qed

text \<open>
  Claim C2 as amended: for a landmark set with the indices 0 to 24 whose nose x differs
  from the average shoulder x, the pipeline on the set and on its full horizontal mirror
  gives the same four angles and the same label and colour, and the orientation flag of
  the one run is the negation of the other's.
\<close>

theorem orientation_invariance:
  assumes len: "24 < length lms"
      and off: "fst (lms ! 0) \<noteq> (fst (lms ! 11) + fst (lms ! 12)) / 2"
  shows "\<exists>a b. frame_pipeline w lms = Inr a \<and> frame_pipeline w (mirrored w lms) = Inr b \<and>
           theta1 (feats b) = theta1 (feats a) \<and> theta2 (feats b) = theta2 (feats a) \<and>
           theta3 (feats b) = theta3 (feats a) \<and> theta4 (feats b) = theta4 (feats a) \<and>
           posture b = posture a \<and> is_facing_left b = (\<not> is_facing_left a)"
proof -
  let ?avg = "(fst (lms ! 11) + fst (lms ! 12)) / 2"
  let ?fl = "fst (lms ! 0) < ?avg"
  let ?m = "mirrored w lms"
  from len have len': "24 < length ?m" by (simp add: mirrored_def)
  from len have fl': "(fst (?m ! 0) < (fst (?m ! 11) + fst (?m ! 12)) / 2) = (?avg < fst (lms ! 0))"
    by (simp add: mirrored_nth [OF len] field_simps)
  from frame_pipeline_value [OF len, of w] obtain f where
    f: "extract_features (if ?fl then ?m else lms) = Inr f" and
    a: "frame_pipeline w lms = Inr \<lparr>is_facing_left = ?fl, canonical = (if ?fl then ?m else lms),
          feats = f, posture = classify_posture (theta1 f) (theta2 f) (theta3 f) (theta4 f)\<rparr>"
    by blast
  from frame_pipeline_value [OF len', of w] obtain g where
    g: "extract_features (if ?avg < fst (lms ! 0) then mirrored w ?m else ?m) = Inr g" and
    b: "frame_pipeline w ?m = Inr \<lparr>is_facing_left = ?avg < fst (lms ! 0),
          canonical = (if ?avg < fst (lms ! 0) then mirrored w ?m else ?m),
          feats = g, posture = classify_posture (theta1 g) (theta2 g) (theta3 g) (theta4 g)\<rparr>"
    unfolding fl' by blast
  from off have "(if ?avg < fst (lms ! 0) then mirrored w ?m else ?m) = (if ?fl then ?m else lms)"
    by (auto simp: mirrored_twice)
  with f g have "g = f" by simp
  with a b off show ?thesis by auto
qed

theorem orientation_invariance_witness:
  "24 < length leaning_landmarks \<and>
   fst (leaning_landmarks ! 0) \<noteq> (fst (leaning_landmarks ! 11) + fst (leaning_landmarks ! 12)) / 2 \<and>
   (\<exists>a b. frame_pipeline 10 leaning_landmarks = Inr a \<and>
          frame_pipeline 10 (mirrored 10 leaning_landmarks) = Inr b \<and>
          theta1 (feats b) = theta1 (feats a) \<and> theta2 (feats b) = theta2 (feats a) \<and>
          theta3 (feats b) = theta3 (feats a) \<and> theta4 (feats b) = theta4 (feats a) \<and>
          posture b = posture a \<and> is_facing_left b = (\<not> is_facing_left a))"
proof -
  have l: "24 < length leaning_landmarks" by (simp add: leaning_nth)
  have n: "fst (leaning_landmarks ! 0) \<noteq> (fst (leaning_landmarks ! 11) + fst (leaning_landmarks ! 12)) / 2"
    by (simp add: leaning_nth)
  from l n orientation_invariance [OF l n, of 10] show ?thesis by blast
qed

text \<open>
  Claim C6: when the pipeline runs on a landmark set and the head, neck, chest and hip it
  finds have the same x-coordinate, with the head above the neck above the chest above the
  hip (y grows downwards in an image), then all four angles are 90 degrees, the label is
  Good Posture, and the set counts as facing right.
\<close>

theorem upright_is_good:
  assumes run: "frame_pipeline w lms = Inr a"
      and x: "fst (head (feats a)) = fst (neck (feats a))"
             "fst (neck (feats a)) = fst (chest (feats a))"
             "fst (chest (feats a)) = fst (hip (feats a))"
      and y: "snd (head (feats a)) < snd (neck (feats a))"
             "snd (neck (feats a)) < snd (chest (feats a))"
             "snd (chest (feats a)) < snd (hip (feats a))"
  shows "theta1 (feats a) = 90 \<and> theta2 (feats a) = 90 \<and> theta3 (feats a) = 90 \<and>
         theta4 (feats a) = 90 \<and> posture a = (''Good Posture'', (0, 255, 0)) \<and>
         \<not> is_facing_left a"
proof -
  let ?f = "feats a" and ?m = "canonical a"
  note p = frame_pipeline_Inr [OF run]
  note h = extract_features_fields(1,2) [OF p(3)]
  note t = extract_features_fields(3-6) [OF p(3)]
  have t1: "theta1 ?f = 90" unfolding t(1) using x(1) y(1) by (rule angle_between_vertical)
  have t2: "theta2 ?f = 90" unfolding t(2) using x(2) y(2) by (rule angle_between_vertical)
  have t3: "theta3 ?f = 90" unfolding t(3) using x(3) y(3) by (rule angle_between_vertical)
  have t4: "theta4 ?f = 90" unfolding t(4) t1 t2 t3 by simp
  have good: "posture a = (''Good Posture'', (0, 255, 0))"
    unfolding p(4) t1 t2 t3 t4
    by (simp add: classify_posture_def TH1_def TH2_def TH3_def TH4_def)
  have right: "\<not> is_facing_left a"
  proof
    assume fl: "is_facing_left a"
    from p(1) have l: "12 < length lms" by (rule facing_left_Inr)
    from p(1) fl have lt: "fst (lms ! 0) < (fst (lms ! 11) + fst (lms ! 12)) / 2"
      by (simp add: facing_left_value [OF l])
    from fl p(2) have m: "?m = mirrored w lms" by simp
    from x(1) have "fst (?m ! 0) = (fst (?m ! 11) + fst (?m ! 12)) / 2"
      by (simp add: h)
    then have "w - fst (lms ! 0) = ((w - fst (lms ! 11)) + (w - fst (lms ! 12))) / 2"
      unfolding m by (simp add: mirrored_nth [OF l])
    with lt show False by (simp add: field_simps)
  qed
  from t1 t2 t3 t4 good right show ?thesis by simp
qed

theorem upright_is_good_witness:
  "frame_pipeline 10 upright_landmarks =
     Inr \<lparr>is_facing_left = False, canonical = upright_landmarks,
          feats = \<lparr>head = (5, 0), neck = (5, 2), hip = (5, 6), chest = (5, 4),
                   theta1 = 90, theta2 = 90, theta3 = 90, theta4 = 90\<rparr>,
          posture = (''Good Posture'', (0, 255, 0))\<rparr> \<and>
   fst ((5, 0) :: point) = fst ((5, 2) :: point) \<and> snd ((5, 0) :: point) < snd ((5, 2) :: point) \<and>
   fst ((5, 2) :: point) = fst ((5, 4) :: point) \<and> snd ((5, 2) :: point) < snd ((5, 4) :: point) \<and>
   fst ((5, 4) :: point) = fst ((5, 6) :: point) \<and> snd ((5, 4) :: point) < snd ((5, 6) :: point) \<and>
   posture \<lparr>is_facing_left = False, canonical = upright_landmarks,
          feats = \<lparr>head = (5, 0), neck = (5, 2), hip = (5, 6), chest = (5, 4),
                   theta1 = 90, theta2 = 90, theta3 = 90, theta4 = 90\<rparr>,
          posture = (''Good Posture'', (0, 255, 0))\<rparr> = (''Good Posture'', (0, 255, 0))"
  using upright_is_good [OF upright_run] upright_run by simp

section \<open>Properties of process_frame\<close>

lemma draw_length [simp]: "length (draw cv a c s) = length s"
  by (simp add: draw_def assign_def split: sum.splits ndarray.splits)

lemma draw_other: "b \<noteq> a \<Longrightarrow> draw cv a c s ! b = s ! b"
  by (simp add: draw_def assign_def split: sum.splits ndarray.splits)


lemma fold_draw_length [simp]: "length (fold (draw cv a) cs s) = length s"
  by (induction cs arbitrary: s) simp_all

lemma fold_draw_other: "b \<noteq> a \<Longrightarrow> fold (draw cv a) cs s ! b = s ! b"
  by (induction cs arbitrary: s) (simp_all add: draw_other)



lemma update_fourth_new:
  "(s @ [a, b, c, d])[Suc (Suc (Suc (length s))) := v] = s @ [a, b, c, v]"
  by (simp add: list_update_append)

lemma process_frame_pose:
  assumes frame: "item s frame_bgr = Inr (Image img)"
      and dims: "shape cv img = (h, w)"
      and det: "detector (cvtColor cv img) (py_int ts) = lm # rest"
      and run: "frame_pipeline (real w) (map (\<lambda>p. (fst p * real w, snd p * real h)) lm) = Inr a"
  shows "process_frame cv detector frame_bgr ts s =
           (Inr (Suc (length s)),
            fold (draw cv (Suc (length s)))
              (overlay w (is_facing_left a) (feats a) (fst (posture a)) (snd (posture a)))
              (s @ [Image (cvtColor cv img), Image img,
                    Points (map (\<lambda>p. (fst p * real w, snd p * real h)) lm),
                    Points (canonical a)]))"
proof -
  note p = frame_pipeline_Inr [OF run]
  show ?thesis
  proof (cases "is_facing_left a")
    case True
    with p frame det dims show ?thesis
      by (simp add: process_frame_def alloc_def assign_def Let_def mirror_x_eq
            update_fourth_new split: prod.splits)
  next
    case False
    with p frame det dims show ?thesis
      by (simp add: process_frame_def alloc_def assign_def Let_def mirror_x_eq
            split: prod.splits)
  qed
qed


lemma take_draw: "n \<le> a \<Longrightarrow> take n (draw cv a c s) = take n s"
  by (simp add: draw_def assign_def split: sum.splits ndarray.splits)

lemma take_fold_draw: "n \<le> a \<Longrightarrow> take n (fold (draw cv a) cs s) = take n s"
  by (induction cs arbitrary: s) (simp_all add: take_draw)

lemma process_frame_prefix:
  "take (length s) (snd (process_frame cv detector frame_bgr ts s)) = s \<and>
   length s \<le> length (snd (process_frame cv detector frame_bgr ts s))"
  by (simp add: process_frame_def alloc_def assign_def Let_def take_fold_draw
        split: sum.splits ndarray.splits prod.splits)

lemma process_frame_out_fresh:
  "fst (process_frame cv detector frame_bgr ts s) = Inr out \<Longrightarrow> out = Suc (length s)"
  by (simp add: process_frame_def alloc_def assign_def Let_def
        split: sum.splits ndarray.splits prod.splits if_splits)

lemma process_frame_lms_px:
  assumes "item s frame_bgr = Inr (Image img)" and "shape cv img = (h, w)"
      and "detector (cvtColor cv img) (py_int ts) = lm # rest"
  shows "item (snd (process_frame cv detector frame_bgr ts s)) (length s + 2) =
           Inr (Points (map (\<lambda>p. (fst p * real w, snd p * real h)) lm))"
  using assms
  by (simp add: process_frame_def alloc_def assign_def Let_def item_def nth_append
        fold_draw_other nth_list_update
        split: sum.splits ndarray.splits prod.splits)

lemma process_frame_returns:
  assumes frame: "item s frame_bgr = Inr (Image img)"
      and dims: "shape cv img = (h, w)"
      and det: "detector (cvtColor cv img) (py_int ts) = lm # rest"
      and len: "24 < length lm"
  shows "fst (process_frame cv detector frame_bgr ts s) = Inr (Suc (length s))"
proof -
  from len have "24 < length (map (\<lambda>p. (fst p * real w, snd p * real h)) lm)" by simp
  from frame_pipeline_value [OF this, of "real w"] obtain a where
    "frame_pipeline (real w) (map (\<lambda>p. (fst p * real w, snd p * real h)) lm) = Inr a"
    by blast
  from process_frame_pose [of s frame_bgr img cv h w detector ts lm rest a, OF frame dims det this]
  show ?thesis by simp
qed


section \<open>Claims about process_frame\<close>



text \<open>
  Claim C10: \<open>process_frame\<close> changes no array that existed before the call, whatever
  it returns or raises: the store only grows, and every address allocated before the call
  holds what it held. The returned address is new and so differs from the frame's, the
  frame still holds its image, and the pixel landmark array, the third allocation of the
  call, still holds the landmarks as scaled, not mirrored.
\<close>

theorem process_frame_preserves_inputs:
  "length s \<le> length (snd (process_frame cv detector frame_bgr ts s)) \<and>
   (\<forall>a < length s. snd (process_frame cv detector frame_bgr ts s) ! a = s ! a) \<and>
   (\<forall>out. fst (process_frame cv detector frame_bgr ts s) = Inr out \<longrightarrow>
      length s \<le> out \<and> out \<noteq> frame_bgr) \<and>
   (item s frame_bgr = Inr (Image img) \<longrightarrow>
      item (snd (process_frame cv detector frame_bgr ts s)) frame_bgr = Inr (Image img)) \<and>
   (item s frame_bgr = Inr (Image img) \<and> shape cv img = (h, w) \<and>
    detector (cvtColor cv img) (py_int ts) = lm # rest \<longrightarrow>
      item (snd (process_frame cv detector frame_bgr ts s)) (length s + 2) =
        Inr (Points (map (\<lambda>p. (fst p * real w, snd p * real h)) lm)))"
proof -
  let ?s' = "snd (process_frame cv detector frame_bgr ts s)"
  note pre = process_frame_prefix [of s cv detector frame_bgr ts]
  have same: "?s' ! a = s ! a" if "a < length s" for a
  proof -
    from that have "take (length s) ?s' ! a = ?s' ! a" by simp
    with pre show ?thesis by simp
  qed
  have out: "length s \<le> out \<and> out \<noteq> frame_bgr"
    if r: "fst (process_frame cv detector frame_bgr ts s) = Inr out" for out
  proof -
    from r have o: "out = Suc (length s)" by (rule process_frame_out_fresh)
    from r have "frame_bgr < length s"
      by (auto simp: process_frame_def item_def split: sum.splits if_splits)
    with o show ?thesis by simp
  qed
  have keep: "item ?s' frame_bgr = Inr (Image img)" if f: "item s frame_bgr = Inr (Image img)"
  proof -
    from f have lt: "frame_bgr < length s" and v: "s ! frame_bgr = Image img"
      by (auto simp: item_def split: if_splits)
    from lt pre have "frame_bgr < length ?s'" by simp
    with same [OF lt] v show ?thesis by (simp add: item_def)
  qed
  from pre same out keep process_frame_lms_px [of s frame_bgr img cv h w detector ts lm rest]
  show ?thesis by blast
qed

theorem process_frame_preserves_inputs_witness:
  "(0 :: nat) < length [Image (0 :: nat)] \<and>
   snd (process_frame counting_lib upright_detector 0 0 [Image 0]) ! 0 = Image 0 \<and>
   fst (process_frame counting_lib upright_detector 0 0 [Image 0]) = Inr 2 \<and>
   length [Image (0 :: nat)] \<le> 2 \<and> (2 :: nat) \<noteq> 0 \<and>
   item [Image (0 :: nat)] 0 = Inr (Image 0) \<and> shape counting_lib 0 = (10, 10) \<and>
   upright_detector (cvtColor counting_lib 0) (py_int 0) = upright_pose # [] \<and>
   item (snd (process_frame counting_lib upright_detector 0 0 [Image 0])) 0 = Inr (Image 0) \<and>
   item (snd (process_frame counting_lib upright_detector 0 0 [Image 0]))
        (length [Image (0 :: nat)] + 2) =
     Inr (Points (map (\<lambda>p. (fst p * real 10, snd p * real 10)) upright_pose))"
proof -
  have f: "item [Image (0 :: nat)] 0 = Inr (Image 0)" by (simp add: item_def)
  have d: "shape counting_lib 0 = (10, 10)" by (simp add: counting_lib_def)
  have u: "upright_detector (cvtColor counting_lib 0) (py_int 0) = upright_pose # []"
    by (simp add: upright_detector_def)
  have l: "24 < length upright_pose" by (simp add: upright_pose_def pose_with_nth)
  from process_frame_returns
         [of "[Image 0]" 0 0 counting_lib 10 10 upright_detector 0 upright_pose "[]", OF f d u l]
  have r: "fst (process_frame counting_lib upright_detector 0 0 [Image 0]) = Inr 2" by simp
  from process_frame_preserves_inputs
         [of "[Image 0]" counting_lib upright_detector 0 0 0 10 10 upright_pose "[]"] f d u r
  show ?thesis by simp
qed

end
